theory Spec2Isabelle
  imports Complex_Main
begin

section \<open>The intent catalog and Python's built-ins\<close>

text \<open>
  One element of \<^verbatim>\<open>intents['intents']\<close>: a tag, its example phrases and its candidate
  replies. The catalog is the list of these records in file order. Documents whose
  elements have another shape (a missing key, a value that is not a list of strings) are
  excluded by the types.
\<close>

record intent =
  tag :: string
  patterns :: "string list"
  responses :: "string list"

type_synonym catalog = "intent list"

text \<open>
  Exceptions are values. \<open>IndexError\<close> is what \<^verbatim>\<open>random.choice\<close> and indexing raise on an
  empty sequence; \<open>LibraryError\<close> stands for whatever scikit-learn or pandas raise.
\<close>

datatype py_exception = IndexError | LibraryError string

text \<open>
  \<^verbatim>\<open>str.lower()\<close>, with a character of \<^typ>\<open>string\<close> read as the code point of that
  number (0 to 255). Below 256 Python lower-cases the letters A to Z and the code points
  192 to 222 other than 215 (the multiplication sign), each by adding 32; every other
  code point stays. Code points from 256 on are outside the type.
\<close>

definition lower_char :: "char \<Rightarrow> char" where
  "lower_char ch =
     (let n = (of_char ch :: nat)
      in if (65 \<le> n \<and> n \<le> 90) \<or> (192 \<le> n \<and> n \<le> 222 \<and> n \<noteq> 215) then char_of (n + 32)
         else ch)"

definition lower :: "string \<Rightarrow> string" where
  "lower s = map lower_char s"

text \<open>
  \<^verbatim>\<open>random.choice(seq)\<close>: IndexError on an empty sequence, otherwise the element at an
  index below \<open>len(seq)\<close>. The draw of the generator is the argument \<open>rnd\<close>; every index
  below the length is reached by some draw.
\<close>

definition random_choice :: "nat \<Rightarrow> 'a list \<Rightarrow> py_exception + 'a" where
  "random_choice rnd seq =
     (if seq = [] then Inl IndexError else Inr (seq ! (rnd mod length seq)))"

section \<open>Response selection (chatbot\_response, after the prediction)\<close>

definition fallback_responses :: "string list" where
  "fallback_responses =
     [''I'm not sure I understand. Could you rephrase?'',
      ''Sorry, I didn't catch that. Could you explain further?'',
      ''I'm still learning. Please provide more details.'']"

text \<open>
  The first loop: \<^verbatim>\<open>for intent in intents['intents']: if intent['tag'] == predicted_tag:
  return random.choice(intent['responses'])\<close>. \<open>None\<close> means the loop ran to its end
  without returning.
\<close>

fun tag_loop :: "catalog \<Rightarrow> string \<Rightarrow> nat \<Rightarrow> (py_exception + string) option" where
  "tag_loop [] predicted_tag rnd = None"
| "tag_loop (intent # rest) predicted_tag rnd =
     (if tag intent = predicted_tag then Some (random_choice rnd (responses intent))
      else tag_loop rest predicted_tag rnd)"

text \<open>
  The loop followed by the fallback lines: \<^verbatim>\<open>next((intent for ... if intent['tag'] ==
  "fallback"), None)\<close> is \<^const>\<open>find\<close>, and a found record is a non-empty dict, hence true.
\<close>

definition select_response :: "catalog \<Rightarrow> nat \<Rightarrow> string \<Rightarrow> py_exception + string" where
  "select_response intents rnd predicted_tag =
     (case tag_loop intents predicted_tag rnd of
        Some result \<Rightarrow> result
      | None \<Rightarrow>
          (case find (\<lambda>intent. tag intent = ''fallback'') intents of
             Some fallback \<Rightarrow> random_choice rnd (responses fallback)
           | None \<Rightarrow> random_choice rnd fallback_responses))"

section \<open>Training set (initialize\_models, the flattening loop)\<close>

text \<open>
  One round of the loop extends both lists: the tag repeated once per pattern, and the
  patterns lower-cased. The loop is a left fold from two empty lists.
\<close>

definition extend_training :: "string list \<times> string list \<Rightarrow> intent \<Rightarrow> string list \<times> string list" where
  "extend_training acc intent =
     (fst acc @ replicate (length (patterns intent)) (tag intent),
      snd acc @ map lower (patterns intent))"

definition training_set :: "catalog \<Rightarrow> string list \<times> string list" where
  "training_set intents = foldl extend_training ([], []) intents"

text \<open>The training examples a single record stands for: its patterns, lower-cased, each with its tag.\<close>

definition examples_of :: "intent \<Rightarrow> (string \<times> string) list" where
  "examples_of intent = map (\<lambda>p. (lower p, tag intent)) (patterns intent)"

section \<open>scikit-learn as the program calls it\<close>

text \<open>
  \<^verbatim>\<open>TfidfVectorizer\<close> and \<^verbatim>\<open>LogisticRegression\<close> are library code. The program's own
  functions take the four calls they make as a parameter: \<open>fit_transform\<close> yields the
  fitted vectorizer and the training matrix, \<open>transform\<close> vectorizes with a fitted
  vectorizer, \<open>lr_fit\<close> fits a classifier built with a configuration, \<open>lr_predict\<close>
  returns one label per row. Each may raise. The second argument of \<open>lr_fit\<close> is the
  state of the process-wide random generator, which an estimator built without a seed
  would draw from.
\<close>

record lr_config =
  random_state :: "nat option"
  max_iter :: nat

record ('vz, 'mat, 'clf) sklearn =
  fit_transform :: "string list \<Rightarrow> py_exception + 'vz \<times> 'mat"
  transform :: "'vz \<Rightarrow> string list \<Rightarrow> py_exception + 'mat"
  lr_fit :: "lr_config \<Rightarrow> nat \<Rightarrow> 'mat \<Rightarrow> string list \<Rightarrow> py_exception + 'clf"
  lr_predict :: "'clf \<Rightarrow> 'mat \<Rightarrow> py_exception + string list"

section \<open>Start-up: load\_intents and initialize\_models\<close>

text \<open>
  How a call at the top of the script ends: it returns, it calls \<^verbatim>\<open>st.stop()\<close> (the script
  run ends there), or an exception leaves it (the script run ends with a traceback).
  The messages of \<^verbatim>\<open>st.error\<close> are display only and are left out.
\<close>

datatype 'a outcome = Returned 'a | Stopped | Raised py_exception

text \<open>
  What \<^verbatim>\<open>open\<close> and \<^verbatim>\<open>json.load\<close> find: no file, a file that is not JSON, or a document,
  whose \<^verbatim>\<open>'intents'\<close> key is absent (\<open>None\<close>) or holds a list of records.
\<close>

datatype intents_file = FileMissing | InvalidJSON | Document "catalog option"

text \<open>
  \<^verbatim>\<open>load_intents\<close>: both handlers return the empty catalog; a document whose list is absent
  or empty is falsy and stops the run.
\<close>

definition load_intents :: "intents_file \<Rightarrow> catalog outcome" where
  "load_intents file =
     (case file of
        FileMissing \<Rightarrow> Returned []
      | InvalidJSON \<Rightarrow> Returned []
      | Document doc \<Rightarrow>
          (case doc of
             None \<Rightarrow> Stopped
           | Some intents \<Rightarrow> if intents = [] then Stopped else Returned intents))"

text \<open>
  The body of \<^verbatim>\<open>initialize_models\<close>: the flattening loop, the emptiness check, then the
  vectorizer and the classifier, built with \<^verbatim>\<open>random_state=0, max_iter=1000\<close>.
\<close>

definition initialize_models ::
  "('vz, 'mat, 'clf) sklearn \<Rightarrow> nat \<Rightarrow> catalog \<Rightarrow> ('vz \<times> 'clf) outcome" where
  "initialize_models lib g intents =
     (let tags = fst (training_set intents); pats = snd (training_set intents) in
      if tags = [] \<or> pats = [] then Stopped
      else
        (case fit_transform lib pats of
           Inl e \<Rightarrow> Raised e
         | Inr (vectorizer, X) \<Rightarrow>
             (case lr_fit lib \<lparr>random_state = Some 0, max_iter = 1000\<rparr> g X tags of
                Inl e \<Rightarrow> Raised e
              | Inr model \<Rightarrow> Returned (vectorizer, model))))"

text \<open>
  \<^verbatim>\<open>@st.cache_resource\<close>: the parameter's name starts with an underscore, so it is not part
  of the cache key. A stored pair is returned without running the body; a body that
  returns is stored; a body that stops or raises stores nothing.
\<close>

definition cache_resource :: "'m option \<Rightarrow> 'm outcome \<Rightarrow> 'm outcome \<times> 'm option" where
  "cache_resource cache body =
     (case cache of
        Some m \<Rightarrow> (Returned m, cache)
      | None \<Rightarrow>
          (case body of
             Returned m \<Rightarrow> (Returned m, Some m)
           | Stopped \<Rightarrow> (Stopped, None)
           | Raised e \<Rightarrow> (Raised e, None)))"

text \<open>
  The top of the script, which every run executes before \<^verbatim>\<open>main()\<close>:
  \<^verbatim>\<open>intents = load_intents()\<close>, then \<^verbatim>\<open>vectorizer, clf = initialize_models(intents)\<close>.
  A run that returns is in the serving state, with these globals.
\<close>

definition script_startup ::
  "('vz, 'mat, 'clf) sklearn \<Rightarrow> nat \<Rightarrow> ('vz \<times> 'clf) option \<Rightarrow> intents_file
     \<Rightarrow> (catalog \<times> 'vz \<times> 'clf) outcome \<times> ('vz \<times> 'clf) option" where
  "script_startup lib g cache file =
     (case load_intents file of
        Returned intents \<Rightarrow>
          (case cache_resource cache (initialize_models lib g intents) of
             (Returned m, cache') \<Rightarrow> (Returned (intents, m), cache')
           | (Stopped, cache') \<Rightarrow> (Stopped, cache')
           | (Raised e, cache') \<Rightarrow> (Raised e, cache'))
      | Stopped \<Rightarrow> (Stopped, cache)
      | Raised e \<Rightarrow> (Raised e, cache))"

text \<open>The catalog a file yields: the document's list, and the empty one in every other case.\<close>

definition catalog_of :: "intents_file \<Rightarrow> catalog" where
  "catalog_of file = (case file of Document (Some intents) \<Rightarrow> intents | _ \<Rightarrow> [])"

text \<open>
  The cache states a process can be in: empty when the process starts, and after any run
  of the script whatever that run leaves, for any file content and generator state.
\<close>

inductive cache_reachable :: "('vz, 'mat, 'clf) sklearn \<Rightarrow> ('vz \<times> 'clf) option \<Rightarrow> bool"
  for lib :: "('vz, 'mat, 'clf) sklearn" where
  fresh: "cache_reachable lib None"
| rerun: "cache_reachable lib cache \<Longrightarrow> script_startup lib g cache file = (out, cache')
            \<Longrightarrow> cache_reachable lib cache'"

section \<open>chatbot\_response\<close>

text \<open>
  Lines 90 and 91: the input is lower-cased, vectorized as a one-row batch, and the first
  label of the prediction is taken (IndexError if there is none).
\<close>

definition predict_tag ::
  "('vz, 'mat, 'clf) sklearn \<Rightarrow> 'vz \<times> 'clf \<Rightarrow> string \<Rightarrow> py_exception + string" where
  "predict_tag lib m user_input =
     (case transform lib (fst m) [lower user_input] of
        Inl e \<Rightarrow> Inl e
      | Inr input_vec \<Rightarrow>
          (case lr_predict lib (snd m) input_vec of
             Inl e \<Rightarrow> Inl e
           | Inr labels \<Rightarrow>
               (case labels of [] \<Rightarrow> Inl IndexError | predicted_tag # _ \<Rightarrow> Inr predicted_tag)))"

text \<open>The body of the \<^verbatim>\<open>try\<close>: predict, then select.\<close>

definition try_response ::
  "('vz, 'mat, 'clf) sklearn \<Rightarrow> 'vz \<times> 'clf \<Rightarrow> catalog \<Rightarrow> nat \<Rightarrow> string \<Rightarrow> py_exception + string" where
  "try_response lib m intents rnd user_input =
     (case predict_tag lib m user_input of
        Inl e \<Rightarrow> Inl e
      | Inr predicted_tag \<Rightarrow> select_response intents rnd predicted_tag)"

definition apology :: string where
  "apology = ''Oops! Something went wrong.''"

text \<open>\<^verbatim>\<open>except Exception\<close> turns every exception of the body into the apology.\<close>

definition chatbot_response ::
  "('vz, 'mat, 'clf) sklearn \<Rightarrow> 'vz \<times> 'clf \<Rightarrow> catalog \<Rightarrow> nat \<Rightarrow> string \<Rightarrow> string" where
  "chatbot_response lib m intents rnd user_input =
     (case try_response lib m intents rnd user_input of
        Inl e \<Rightarrow> apology
      | Inr response \<Rightarrow> response)"

section \<open>save\_conversation\<close>

text \<open>
  A row of the history table. pandas' CSV writer and reader and \<^verbatim>\<open>datetime.isoformat\<close>
  are library code, taken as parameters: \<open>'f\<close> is the content of a file, \<open>'t\<close> a reading
  of the clock. The history file is \<open>None\<close> when it does not exist.
\<close>

record turn =
  User :: string
  Response :: string
  Timestamp :: string

record ('f, 't) host =
  to_csv :: "turn list \<Rightarrow> 'f"
  read_csv :: "'f \<Rightarrow> py_exception + turn list"
  isoformat :: "'t \<Rightarrow> string"

text \<open>
  \<open>now\<close> is what \<^verbatim>\<open>datetime.datetime.now()\<close> reads in the first line of the call. The
  result is the history file after the call; an exception of \<^verbatim>\<open>read_csv\<close> leaves the call
  before anything is written.
\<close>

definition save_conversation ::
  "('f, 't) host \<Rightarrow> 't \<Rightarrow> string \<Rightarrow> string \<Rightarrow> 'f option \<Rightarrow> py_exception + 'f option" where
  "save_conversation env now user_input response history_file =
     (let timestamp = isoformat env now;
          new_entry = [\<lparr>User = user_input, Response = response, Timestamp = timestamp\<rparr>]
      in case history_file of
           Some content \<Rightarrow>
             (case read_csv env content of
                Inl e \<Rightarrow> Inl e
              | Inr history_df \<Rightarrow> Inr (Some (to_csv env (history_df @ new_entry))))
         | None \<Rightarrow> Inr (Some (to_csv env new_entry)))"

text \<open>
  The read of \<^verbatim>\<open>display_chat_history\<close>: the whole table when the file exists, and \<open>None\<close>
  (the notice that there is no history) when it does not.
\<close>

definition display_chat_history :: "('f, 't) host \<Rightarrow> 'f option \<Rightarrow> py_exception + turn list option" where
  "display_chat_history env history_file =
     (case history_file of
        Some content \<Rightarrow>
          (case read_csv env content of Inl e \<Rightarrow> Inl e | Inr history_df \<Rightarrow> Inr (Some history_df))
      | None \<Rightarrow> Inr None)"

section \<open>The vector space model and the classifier\<close>

text \<open>
  Modelled from the spec: the fitted vectorizer (scikit-learn's \<^verbatim>\<open>TfidfVectorizer\<close>, whose
  code is not in the repository). It owns the vocabulary, a token's feature index being
  its position, and one inverse-document-frequency weight per vocabulary token.
\<close>

record vector_space_model =
  vocabulary :: "string list"
  idf :: "real list"

text \<open>
  Modelled from the spec: a tokenized text maps to the vector, over the vocabulary, of
  term frequency times inverse document frequency.
\<close>

definition tfidf_vector :: "vector_space_model \<Rightarrow> string list \<Rightarrow> real list" where
  "tfidf_vector vsm tokens =
     map (\<lambda>(t, w). real (count_list tokens t) * w) (zip (vocabulary vsm) (idf vsm))"

text \<open>
  Modelled from the spec: the fitted classifier (scikit-learn's \<^verbatim>\<open>LogisticRegression\<close>).
  It owns the class labels and one weight vector per class.
\<close>

type_synonym classifier = "(string \<times> real list) list"

text \<open>Modelled from the spec: the decision function gives every class the score of its weight vector on the features.\<close>

definition score :: "real list \<Rightarrow> real list \<Rightarrow> real" where
  "score w x = sum_list (map (\<lambda>(a, b). a * b) (zip w x))"

definition decision_function :: "classifier \<Rightarrow> real list \<Rightarrow> (string \<times> real) list" where
  "decision_function clf x = map (\<lambda>(k, w). (k, score w x)) clf"

text \<open>
  Modelled from the spec: the prediction is the single highest-scoring class, whatever
  the score (the earliest class among equal scores).
\<close>

definition better :: "string \<times> real \<Rightarrow> string \<times> real \<Rightarrow> string \<times> real" where
  "better best cand = (if snd best < snd cand then cand else best)"

definition predict_row :: "string \<times> real list \<Rightarrow> classifier \<Rightarrow> real list \<Rightarrow> string" where
  "predict_row first rest x =
     fst (foldl better (fst first, score (snd first) x) (decision_function rest x))"

text \<open>
  What the spec leaves to the libraries: the tokenizer (\<^verbatim>\<open>nltk.word_tokenize\<close>), the
  weight of a token that occurs in \<open>df\<close> of \<open>n\<close> training texts, and the optimizer, which
  from a seed, an iteration bound, the training matrix and its labels gives the weight
  vector of a class.
\<close>

record text_params =
  tokenizer :: "string \<Rightarrow> string list"
  idf_weight :: "nat \<Rightarrow> nat \<Rightarrow> real"
  optimizer :: "nat \<Rightarrow> nat \<Rightarrow> real list list \<Rightarrow> string list \<Rightarrow> string \<Rightarrow> real list"

text \<open>
  Modelled from the spec: fitting the vector space. The vocabulary is the set of tokens
  seen across the training texts, and the statistics derive from these texts alone.
\<close>

definition fit_vocabulary :: "text_params \<Rightarrow> string list \<Rightarrow> vector_space_model" where
  "fit_vocabulary P texts =
     (let docs = map (tokenizer P) texts; vocab = remdups (concat docs)
      in \<lparr>vocabulary = vocab,
          idf = map (\<lambda>t. idf_weight P (length docs) (length (filter (\<lambda>d. t \<in> set d) docs))) vocab\<rparr>)"

text \<open>
  Modelled from the spec: the four library calls. The classes of a fitted classifier are
  the labels it was fitted on; the seed of the optimizer is the configured one, and the
  process-wide generator only without one.
\<close>

definition spec_sklearn ::
  "text_params \<Rightarrow> (vector_space_model, real list list, classifier) sklearn" where
  "spec_sklearn P =
     \<lparr>fit_transform = (\<lambda>texts.
        let vsm = fit_vocabulary P texts
        in Inr (vsm, map (\<lambda>s. tfidf_vector vsm (tokenizer P s)) texts)),
      transform = (\<lambda>vsm texts. Inr (map (\<lambda>s. tfidf_vector vsm (tokenizer P s)) texts)),
      lr_fit = (\<lambda>cfg g X y.
        Inr (map (\<lambda>k. (k, optimizer P (case random_state cfg of Some seed \<Rightarrow> seed | None \<Rightarrow> g)
                                      (max_iter cfg) X y k))
                 (remdups y))),
      lr_predict = (\<lambda>clf X.
        case clf of
          [] \<Rightarrow> Inl (LibraryError ''no classes'')
        | first # rest \<Rightarrow> Inr (map (predict_row first rest) X))\<rparr>"

section \<open>Concrete parameters and catalogs\<close>

text \<open>
  A small instance of the parameters, to run the model: tokens are the maximal runs of
  characters other than the space, every weight of a token is one, and the weight vector
  of a class is the sum of the training vectors labelled with it.
\<close>

fun space_tokens :: "string \<Rightarrow> string \<Rightarrow> string list" where
  "space_tokens cur [] = (if cur = [] then [] else [cur])"
| "space_tokens cur (c # cs) =
     (if c = CHR '' '' then (if cur = [] then [] else [cur]) @ space_tokens [] cs
      else space_tokens (cur @ [c]) cs)"

fun sum_rows :: "real list list \<Rightarrow> real list" where
  "sum_rows [] = []"
| "sum_rows [r] = r"
| "sum_rows (r # rs) = map (\<lambda>(a, b). a + b) (zip r (sum_rows rs))"

definition counting_params :: text_params where
  "counting_params =
     \<lparr>tokenizer = space_tokens [],
      idf_weight = (\<lambda>n df. 1),
      optimizer = (\<lambda>seed iters X y k. sum_rows (map fst (filter (\<lambda>(x, l). l = k) (zip X y))))\<rparr>"

text \<open>The two-record catalog of the specification's scenario.\<close>

definition scenario_catalog :: catalog where
  "scenario_catalog =
     [\<lparr>tag = ''greeting'', patterns = [''hi'', ''hello''], responses = [''Hey there!'']\<rparr>,
      \<lparr>tag = ''fallback'', patterns = [''??''], responses = [''I don't understand.'']\<rparr>]"

section \<open>Predicates of the statements\<close>

text \<open>
  A pair of vectorizer and classifier is fitted when it is what the library calls of
  \<open>initialize_models\<close> return on a training set with at least one example.
\<close>

definition fitted :: "('vz, 'mat, 'clf) sklearn \<Rightarrow> 'vz \<times> 'clf \<Rightarrow> bool" where
  "fitted lib m \<longleftrightarrow>
     (\<exists>g intents X.
        fst (training_set intents) \<noteq> []
        \<and> fit_transform lib (snd (training_set intents)) = Inr (fst m, X)
        \<and> lr_fit lib \<lparr>random_state = Some 0, max_iter = 1000\<rparr> g X (fst (training_set intents))
            = Inr (snd m))"

text \<open>
  A catalog within the data model (unique tags, non-empty lists) in which one candidate
  reply is the empty string.
\<close>

definition silent_catalog :: catalog where
  "silent_catalog =
     [\<lparr>tag = ''greeting'', patterns = [''hi''], responses = ['''']\<rparr>,
      \<lparr>tag = ''goodbye'', patterns = [''bye''], responses = [''See you!'']\<rparr>]"

text \<open>
  The contract of a seeded estimator: fitted with a seed, it draws nothing from the
  process-wide generator, so the state of that generator does not change what it returns.
\<close>

definition honours_seed :: "('vz, 'mat, 'clf) sklearn \<Rightarrow> bool" where
  "honours_seed lib \<longleftrightarrow>
     (\<forall>seed iters g g' X y.
        lr_fit lib \<lparr>random_state = Some seed, max_iter = iters\<rparr> g X y
          = lr_fit lib \<lparr>random_state = Some seed, max_iter = iters\<rparr> g' X y)"

text \<open>
  Verbatim recall on a catalog: training returns, and for every record the prediction on
  each of its patterns, lower-cased, is the record's tag.
\<close>

definition verbatim_recall :: "('vz, 'mat, 'clf) sklearn \<Rightarrow> nat \<Rightarrow> catalog \<Rightarrow> bool" where
  "verbatim_recall lib g intents \<longleftrightarrow>
     (\<exists>m. initialize_models lib g intents = Returned m
          \<and> (\<forall>r\<in>set intents. \<forall>p\<in>set (patterns r). predict_tag lib m (lower p) = Inr (tag r)))"

text \<open>
  A catalog within the data model in which two records list the same phrase.
\<close>

definition shared_catalog :: catalog where
  "shared_catalog =
     [\<lparr>tag = ''greeting'', patterns = [''hi'', ''good day''], responses = [''Hello!'']\<rparr>,
      \<lparr>tag = ''goodbye'', patterns = [''good day'', ''bye''], responses = [''See you!'']\<rparr>]"

text \<open>
  A host to run the logger on: the content of a file is the table itself, and a clock
  reading is given as its ISO text.
\<close>

definition memory_host :: "(turn list, string) host" where
  "memory_host = \<lparr>to_csv = (\<lambda>df. df), read_csv = Inr, isoformat = (\<lambda>t. t)\<rparr>"

text \<open>
  A second instance of the parameters: an optimizer that leaves every weight at zero, as
  a fit that has not separated the classes does.
\<close>

definition flat_params :: text_params where
  "flat_params =
     \<lparr>tokenizer = space_tokens [],
      idf_weight = (\<lambda>n df. 1),
      optimizer = (\<lambda>seed iters X y k. case X of [] \<Rightarrow> [] | row # _ \<Rightarrow> map (\<lambda>_. 0) row)\<rparr>"

text \<open>
  pandas' reader as far as missing values go (library behaviour, not code of the
  repository): by default a cell whose text is one of the missing-value markers, some of
  which are listed here, is read as NaN, and every other text cell as its text. NaN is
  written here as its Python text \<open>nan\<close>. The content of a file is the list of its rows of
  cell texts; the inference of numbers is left out.
\<close>

definition na_markers :: "string list" where
  "na_markers = ['''', ''NA'', ''N/A'', ''NULL'', ''NaN'', ''nan'', ''null'']"

definition read_cell :: "string \<Rightarrow> string" where
  "read_cell s = (if s \<in> set na_markers then ''nan'' else s)"

definition pandas_na_host :: "(turn list, string) host" where
  "pandas_na_host =
     \<lparr>to_csv = (\<lambda>df. df),
      read_csv = (\<lambda>content. Inr (map (\<lambda>row. \<lparr>User = read_cell (User row),
                                                 Response = read_cell (Response row),
                                                 Timestamp = read_cell (Timestamp row)\<rparr>) content)),
      isoformat = (\<lambda>t. t)\<rparr>"

section \<open>Facts about selection\<close>

lemma random_choice_member:
  "seq \<noteq> [] \<Longrightarrow> \<exists>s. random_choice rnd seq = Inr s \<and> s \<in> set seq"
  by (simp add: random_choice_def)

lemma tag_loop_find:
  "tag_loop intents t rnd =
     map_option (\<lambda>i. random_choice rnd (responses i)) (find (\<lambda>i. tag i = t) intents)"
  by (induction intents) simp_all

lemma find_tag_distinct:
  "r \<in> set intents \<Longrightarrow> distinct (map tag intents) \<Longrightarrow> find (\<lambda>i. tag i = tag r) intents = Some r"
proof (induction intents)
  case Nil
  then show ?case by simp
next
  case (Cons i rest)
  show ?case
  proof (cases "i = r")
    case True
    then show ?thesis by simp
  next
    case False
    with Cons.prems have in_rest: "r \<in> set rest" by simp
    then have "tag r \<in> tag ` set rest" by (rule imageI)
    with Cons.prems have "tag i \<noteq> tag r" by auto
    moreover from Cons.IH in_rest Cons.prems have "find (\<lambda>i. tag i = tag r) rest = Some r"
      by simp
    ultimately show ?thesis by simp
  qed
qed

lemma find_tag_absent:
  "t \<notin> tag ` set intents \<Longrightarrow> find (\<lambda>i. tag i = t) intents = None"
  by (auto simp: find_None_iff)

lemma random_choice_Inr:
  "random_choice rnd seq = Inr s \<Longrightarrow> s \<in> set seq"
  by (auto simp: random_choice_def split: if_splits)

lemma find_Some_member:
  "find P xs = Some x \<Longrightarrow> x \<in> set xs \<and> P x"
  by (induction xs) (auto split: if_splits)

text \<open>
  C1. In a catalog whose tags are unique (the data model's invariant), for every record
  \<open>r\<close> and every draw, selecting for the predicted tag \<open>tag r\<close> returns from the first
  loop with the choice among \<open>responses r\<close>. No string outside \<open>responses r\<close> is ever
  selected, and when \<open>r\<close> has at least one response (the invariant again) a string is
  selected, with no exception, and it is a member of \<open>responses r\<close>.
\<close>

theorem select_present_tag_member:
  assumes "r \<in> set intents" and "distinct (map tag intents)"
  shows "tag_loop intents (tag r) rnd = Some (random_choice rnd (responses r))
       \<and> (\<forall>s. select_response intents rnd (tag r) = Inr s \<longrightarrow> s \<in> set (responses r))
       \<and> (responses r \<noteq> [] \<longrightarrow>
            (\<exists>s. select_response intents rnd (tag r) = Inr s \<and> s \<in> set (responses r)))"
proof -
  from assms have found: "find (\<lambda>i. tag i = tag r) intents = Some r"
    by (rule find_tag_distinct)
  then have loop: "tag_loop intents (tag r) rnd = Some (random_choice rnd (responses r))"
    by (simp add: tag_loop_find)
  then have selected: "select_response intents rnd (tag r) = random_choice rnd (responses r)"
    by (simp add: select_response_def)
  have "s \<in> set (responses r)" if "select_response intents rnd (tag r) = Inr s" for s
    using that selected random_choice_Inr by metis
  moreover have "\<exists>s. select_response intents rnd (tag r) = Inr s \<and> s \<in> set (responses r)"
    if "responses r \<noteq> []"
    using that selected random_choice_member by metis
  ultimately show ?thesis using loop by blast
qed

theorem select_present_tag_member_witness:
  "\<lparr>tag = ''greeting'', patterns = [''hi'', ''hello''], responses = [''Hey there!'']\<rparr>
       \<in> set scenario_catalog
   \<and> distinct (map tag scenario_catalog)
   \<and> tag_loop scenario_catalog ''greeting'' 5 = Some (Inr ''Hey there!'')
   \<and> select_response scenario_catalog 5 ''greeting'' = Inr ''Hey there!''"
  using select_present_tag_member
    [of "\<lparr>tag = ''greeting'', patterns = [''hi'', ''hello''], responses = [''Hey there!'']\<rparr>"
        scenario_catalog 5]
  by (simp add: scenario_catalog_def random_choice_def)

text \<open>
  C2. In a catalog whose tags are unique, a predicted tag that no record carries falls
  through the first loop. Whatever string is then selected is a member of the responses
  of the record tagged \<open>fallback\<close> when the catalog has one, and a member of the built-in
  replies when it has none. A string is selected, with no exception, whenever the
  fallback record, if there is one, has a response.
\<close>

theorem select_absent_tag_fallback:
  assumes "predicted_tag \<notin> tag ` set intents" and "distinct (map tag intents)"
  shows "(\<forall>s. select_response intents rnd predicted_tag = Inr s \<longrightarrow>
            (\<forall>fb\<in>set intents. tag fb = ''fallback'' \<longrightarrow> s \<in> set (responses fb))
            \<and> (''fallback'' \<notin> tag ` set intents \<longrightarrow> s \<in> set fallback_responses))
       \<and> ((\<forall>fb\<in>set intents. tag fb = ''fallback'' \<longrightarrow> responses fb \<noteq> []) \<longrightarrow>
            (\<exists>s. select_response intents rnd predicted_tag = Inr s))"
proof -
  from assms(1) have through: "tag_loop intents predicted_tag rnd = None"
    by (simp add: tag_loop_find find_tag_absent)
  show ?thesis
  proof (cases "find (\<lambda>i. tag i = ''fallback'') intents")
    case None
    with through have selected:
      "select_response intents rnd predicted_tag = random_choice rnd fallback_responses"
      by (simp add: select_response_def)
    from None have no_fb: "\<forall>fb\<in>set intents. tag fb \<noteq> ''fallback''"
      by (simp add: find_None_iff)
    have "fallback_responses \<noteq> []" by (simp add: fallback_responses_def)
    then have "\<exists>s. random_choice rnd fallback_responses = Inr s"
      using random_choice_member by blast
    moreover have "s \<in> set fallback_responses" if "random_choice rnd fallback_responses = Inr s" for s
      using that by (rule random_choice_Inr)
    ultimately show ?thesis using selected no_fb by auto
  next
    case (Some fb0)
    with through have selected:
      "select_response intents rnd predicted_tag = random_choice rnd (responses fb0)"
      by (simp add: select_response_def)
    from Some have fb0: "fb0 \<in> set intents" "tag fb0 = ''fallback''"
      using find_Some_member by fast+
    have only: "fb = fb0" if "fb \<in> set intents" "tag fb = ''fallback''" for fb
    proof -
      from that(1) assms(2) have "find (\<lambda>i. tag i = tag fb) intents = Some fb"
        by (rule find_tag_distinct)
      with that(2) Some show ?thesis by simp
    qed
    have member: "s \<in> set (responses fb)"
      if "select_response intents rnd predicted_tag = Inr s" "fb \<in> set intents" "tag fb = ''fallback''"
      for s fb
    proof -
      from that(2,3) have "fb = fb0" by (rule only)
      moreover from that(1) selected have "s \<in> set (responses fb0)"
        using random_choice_Inr by metis
      ultimately show ?thesis by simp
    qed
    have returns: "\<exists>s. select_response intents rnd predicted_tag = Inr s"
      if "\<forall>fb\<in>set intents. tag fb = ''fallback'' \<longrightarrow> responses fb \<noteq> []"
    proof -
      from that fb0 have "responses fb0 \<noteq> []" by blast
      then show ?thesis using selected random_choice_member by metis
    qed
    from fb0 have present: "''fallback'' \<in> tag ` set intents" by force
    from member returns present show ?thesis by blast
  qed
qed

theorem select_absent_tag_fallback_witness:
  "''weather'' \<notin> tag ` set scenario_catalog
   \<and> distinct (map tag scenario_catalog)
   \<and> select_response scenario_catalog 3 ''weather'' = Inr ''I don't understand.''
   \<and> select_response [] 4 ''weather'' = Inr ''Sorry, I didn't catch that. Could you explain further?''"
  using select_absent_tag_fallback [of "''weather''" scenario_catalog 3]
    select_absent_tag_fallback [of "''weather''" "[]" 4]
  by (simp add: scenario_catalog_def select_response_def random_choice_def fallback_responses_def)

section \<open>Facts about the training set\<close>

lemma foldl_extend_training:
  "foldl extend_training acc intents =
     (fst acc @ concat (map (\<lambda>i. replicate (length (patterns i)) (tag i)) intents),
      snd acc @ concat (map (\<lambda>i. map lower (patterns i)) intents))"
  by (induction intents arbitrary: acc) (simp_all add: extend_training_def)

lemma training_set_concat:
  "training_set intents =
     (concat (map (\<lambda>i. replicate (length (patterns i)) (tag i)) intents),
      concat (map (\<lambda>i. map lower (patterns i)) intents))"
  by (simp add: training_set_def foldl_extend_training)

lemma zip_concat_same_lengths:
  "\<forall>i\<in>set xs. length (f i) = length (g i) \<Longrightarrow>
     zip (concat (map f xs)) (concat (map g xs)) = concat (map (\<lambda>i. zip (f i) (g i)) xs)"
  by (induction xs) simp_all

lemma zip_map_replicate:
  "zip (map f ps) (replicate (length ps) t) = map (\<lambda>p. (f p, t)) ps"
  by (induction ps) simp_all

text \<open>
  C4. The loop of \<open>initialize_models\<close> builds two lists of the same length (the first
  component the tags, the second the texts); read side by side they are, record after
  record in catalog order, each pattern of the record lower-cased and paired with the
  record's tag. A record with \<open>N\<close> patterns therefore stands for exactly \<open>N\<close> examples.
\<close>

theorem training_set_pairs:
  "length (snd (training_set intents)) = length (fst (training_set intents))
   \<and> zip (snd (training_set intents)) (fst (training_set intents)) = concat (map examples_of intents)
   \<and> length (examples_of r) = length (patterns r)"
proof -
  have "zip (snd (training_set intents)) (fst (training_set intents)) =
          concat (map (\<lambda>i. zip (map lower (patterns i)) (replicate (length (patterns i)) (tag i))) intents)"
    by (simp add: training_set_concat zip_concat_same_lengths)
  also have "\<dots> = concat (map examples_of intents)"
    by (simp add: zip_map_replicate examples_of_def [abs_def])
  finally have paired: "zip (snd (training_set intents)) (fst (training_set intents)) =
      concat (map examples_of intents)" .
  have "length (snd (training_set intents)) = length (fst (training_set intents))"
    by (simp add: training_set_concat length_concat comp_def)
  with paired show ?thesis by (simp add: examples_of_def)
qed

section \<open>Facts about start-up\<close>

lemma initialize_models_empty:
  "fst (training_set intents) = [] \<Longrightarrow> initialize_models lib g intents = Stopped"
  by (simp add: initialize_models_def)

lemma initialize_models_Returned:
  assumes "initialize_models lib g intents = Returned m"
  shows "fst (training_set intents) \<noteq> []
    \<and> (\<exists>X. fit_transform lib (snd (training_set intents)) = Inr (fst m, X)
          \<and> lr_fit lib \<lparr>random_state = Some 0, max_iter = 1000\<rparr> g X (fst (training_set intents))
              = Inr (snd m))"
  using assms
  by (auto simp: initialize_models_def Let_def split: if_splits sum.splits prod.splits)

lemma initialize_models_fitted:
  "initialize_models lib g intents = Returned m \<Longrightarrow> fitted lib m"
  unfolding fitted_def using initialize_models_Returned by blast

lemma load_intents_empty:
  "fst (training_set (catalog_of file)) = [] \<Longrightarrow>
     load_intents file = Stopped \<or> (\<exists>c. load_intents file = Returned c \<and> fst (training_set c) = [])"
  by (auto simp: load_intents_def catalog_of_def training_set_def split: intents_file.splits option.splits)

lemma startup_empty:
  assumes "fst (training_set (catalog_of file)) = []"
  shows "script_startup lib g None file = (Stopped, None)"
proof -
  from assms load_intents_empty consider "load_intents file = Stopped"
    | c where "load_intents file = Returned c" "fst (training_set c) = []"
    by blast
  then show ?thesis
  proof cases
    case 1
    then show ?thesis by (simp add: script_startup_def)
  next
    case 2
    then show ?thesis
      by (simp add: script_startup_def cache_resource_def initialize_models_empty)
  qed
qed

lemma startup_step:
  assumes inv: "\<forall>m. cache = Some m \<longrightarrow> fitted lib m"
    and run: "script_startup lib g cache file = (out, cache')"
  shows "(\<forall>m. cache' = Some m \<longrightarrow> fitted lib m)
       \<and> (\<forall>intents m. out = Returned (intents, m) \<longrightarrow> fitted lib m)"
proof (cases "load_intents file")
  case (Returned intents)
  show ?thesis
  proof (cases cache)
    case None
    with Returned run show ?thesis
      by (auto simp: script_startup_def cache_resource_def initialize_models_fitted
               split: outcome.splits)
  next
    case (Some m0)
    with Returned run inv show ?thesis
      by (auto simp: script_startup_def cache_resource_def)
  qed
next
  case Stopped
  with run inv show ?thesis by (auto simp: script_startup_def)
next
  case (Raised e)
  with run inv show ?thesis by (auto simp: script_startup_def)
qed

lemma cache_reachable_fitted:
  "cache_reachable lib cache \<Longrightarrow> \<forall>m. cache = Some m \<longrightarrow> fitted lib m"
proof (induction rule: cache_reachable.induct)
  case fresh
  then show ?case by simp
next
  case (rerun cache g src out cache')
  then show ?case using startup_step by blast
qed

lemma scenario_model:
  "initialize_models (spec_sklearn counting_params) g scenario_catalog =
     Returned (\<lparr>vocabulary = [''hi'', ''hello'', ''??''], idf = [1, 1, 1]\<rparr>,
               [(''greeting'', [1, 1, 0]), (''fallback'', [0, 0, 1])])"
  by (simp add: initialize_models_def spec_sklearn_def counting_params_def scenario_catalog_def
      training_set_def extend_training_def lower_def lower_char_def fit_vocabulary_def
      tfidf_vector_def Let_def)

text \<open>
  C7. A file that yields an empty training set (no file, invalid JSON, no list of
  intents or an empty one, records without patterns) stops the first run of a process
  before \<open>main()\<close>, and nothing is cached. In every run that reaches the serving state,
  in a process with any history of earlier runs, the vectorizer and classifier in use
  were fitted on a training set with at least one example (a later run reuses the cached
  pair of an earlier successful fit).
\<close>

theorem no_serving_without_fit:
  "(fst (training_set (catalog_of file)) = [] \<longrightarrow> script_startup lib g None file = (Stopped, None))
   \<and> (cache_reachable lib cache \<longrightarrow> script_startup lib g cache file' = (Returned (intents, m), cache')
        \<longrightarrow> fitted lib m)"
  using startup_empty cache_reachable_fitted startup_step by blast

theorem no_serving_without_fit_witness:
  "script_startup (spec_sklearn counting_params) 0 None FileMissing = (Stopped, None)
   \<and> script_startup (spec_sklearn counting_params) 0 None InvalidJSON = (Stopped, None)
   \<and> script_startup (spec_sklearn counting_params) 0 None
        (Document (Some [\<lparr>tag = ''greeting'', patterns = [], responses = [''Hey there!'']\<rparr>]))
      = (Stopped, None)
   \<and> fitted (spec_sklearn counting_params)
        (\<lparr>vocabulary = [''hi'', ''hello'', ''??''], idf = [1, 1, 1]\<rparr>,
         [(''greeting'', [1, 1, 0]), (''fallback'', [0, 0, 1])])"
proof -
  have run: "script_startup (spec_sklearn counting_params) 0 None (Document (Some scenario_catalog))
      = (Returned (scenario_catalog,
           \<lparr>vocabulary = [''hi'', ''hello'', ''??''], idf = [1, 1, 1]\<rparr>,
           [(''greeting'', [1, 1, 0]), (''fallback'', [0, 0, 1])]),
         Some (\<lparr>vocabulary = [''hi'', ''hello'', ''??''], idf = [1, 1, 1]\<rparr>,
           [(''greeting'', [1, 1, 0]), (''fallback'', [0, 0, 1])]))"
    by (simp add: script_startup_def load_intents_def cache_resource_def
        initialize_models_def spec_sklearn_def counting_params_def scenario_catalog_def
        training_set_def extend_training_def lower_def lower_char_def fit_vocabulary_def
        tfidf_vector_def Let_def)
  have e1: "fst (training_set (catalog_of FileMissing)) = []"
    by (simp add: catalog_of_def training_set_def)
  have e2: "fst (training_set (catalog_of InvalidJSON)) = []"
    by (simp add: catalog_of_def training_set_def)
  have e3: "fst (training_set (catalog_of
      (Document (Some [\<lparr>tag = ''greeting'', patterns = [], responses = [''Hey there!'']\<rparr>])))) = []"
    by (simp add: catalog_of_def training_set_def extend_training_def)
  show ?thesis
    using no_serving_without_fit [of FileMissing "spec_sklearn counting_params" 0 None]
      no_serving_without_fit [of InvalidJSON "spec_sklearn counting_params" 0 None]
      no_serving_without_fit [of "Document (Some [\<lparr>tag = ''greeting'', patterns = [], responses = [''Hey there!'']\<rparr>])" "spec_sklearn counting_params" 0 None]
      no_serving_without_fit [of "Document (Some scenario_catalog)" "spec_sklearn counting_params" 0 None
         "Document (Some scenario_catalog)" scenario_catalog]
      cache_reachable.fresh [of "spec_sklearn counting_params"] run e1 e2 e3
    by simp
qed

section \<open>Facts about chatbot\_response\<close>

lemma tag_loop_range:
  "tag_loop intents t rnd = Some (Inr s) \<Longrightarrow> s \<in> (\<Union>i\<in>set intents. set (responses i))"
proof (induction intents)
  case Nil
  then show ?case by simp
next
  case (Cons i rest)
  show ?case
  proof (cases "tag i = t")
    case True
    with Cons.prems have "random_choice rnd (responses i) = Inr s" by simp
    then have "s \<in> set (responses i)"
      by (auto simp: random_choice_def split: if_splits)
    then show ?thesis by simp
  next
    case False
    with Cons show ?thesis by simp
  qed
qed

lemma select_response_range:
  assumes "select_response intents rnd t = Inr s"
  shows "s \<in> set fallback_responses \<union> (\<Union>i\<in>set intents. set (responses i))"
proof (cases "tag_loop intents t rnd")
  case (Some res)
  with assms have "tag_loop intents t rnd = Some (Inr s)" by (simp add: select_response_def)
  then have "s \<in> (\<Union>i\<in>set intents. set (responses i))" by (rule tag_loop_range)
  then show ?thesis by (rule UnI2)
next
  case None
  show ?thesis
  proof (cases "find (\<lambda>i. tag i = ''fallback'') intents")
    case fb_None: None
    with None assms have "random_choice rnd fallback_responses = Inr s"
      by (simp add: select_response_def)
    then have "s \<in> set fallback_responses" by (rule random_choice_Inr)
    then show ?thesis by (rule UnI1)
  next
    case (Some fb)
    then have member: "fb \<in> set intents" using find_Some_member by fast
    from None Some assms have "random_choice rnd (responses fb) = Inr s"
      by (simp add: select_response_def)
    then have "s \<in> set (responses fb)" by (rule random_choice_Inr)
    with member have "s \<in> (\<Union>i\<in>set intents. set (responses i))" by (rule UN_I)
    then show ?thesis by (rule UnI2)
  qed
qed

lemma apology_nonempty: "apology \<noteq> []"
  by (simp add: apology_def)

lemma fallback_responses_nonempty: "[] \<notin> set fallback_responses"
  by (simp add: fallback_responses_def)

lemma chatbot_response_range:
  "chatbot_response lib m intents rnd u
     \<in> {apology} \<union> set fallback_responses \<union> (\<Union>i\<in>set intents. set (responses i))"
proof (cases "try_response lib m intents rnd u")
  case (Inl e)
  then show ?thesis by (simp add: chatbot_response_def)
next
  case (Inr s)
  then have "chatbot_response lib m intents rnd u = s" by (simp add: chatbot_response_def)
  moreover from Inr obtain t where "select_response intents rnd t = Inr s"
    by (auto simp: try_response_def split: sum.splits)
  then have "s \<in> set fallback_responses \<union> (\<Union>i\<in>set intents. set (responses i))"
    by (rule select_response_range)
  ultimately show ?thesis by simp
qed

text \<open>
  C3, as amended. For every input string, fitted pair, catalog and draw,
  \<open>chatbot_response\<close> returns a string and no exception leaves it: an exception of the
  vectorizer, of the classifier or of the selection becomes the apology, and a body that
  returns hands its string on. The string returned is the apology, a built-in reply or a
  response of the catalog; it is non-empty whenever no response of the catalog is the
  empty string.
\<close>

theorem chatbot_response_catches:
  "(try_response lib m intents rnd u = Inl e \<longrightarrow> chatbot_response lib m intents rnd u = apology)
   \<and> (try_response lib m intents rnd u = Inr s \<longrightarrow> chatbot_response lib m intents rnd u = s)
   \<and> chatbot_response lib m intents rnd u
       \<in> {apology} \<union> set fallback_responses \<union> (\<Union>i\<in>set intents. set (responses i))
   \<and> ((\<forall>i\<in>set intents. [] \<notin> set (responses i)) \<longrightarrow> chatbot_response lib m intents rnd u \<noteq> [])"
proof -
  have range: "chatbot_response lib m intents rnd u
       \<in> {apology} \<union> set fallback_responses \<union> (\<Union>i\<in>set intents. set (responses i))"
    by (rule chatbot_response_range)
  have "chatbot_response lib m intents rnd u \<noteq> []" if "\<forall>i\<in>set intents. [] \<notin> set (responses i)"
  proof
    assume "chatbot_response lib m intents rnd u = []"
    with range have "[] \<in> {apology} \<union> set fallback_responses \<union> (\<Union>i\<in>set intents. set (responses i))"
      by simp
    with that apology_nonempty fallback_responses_nonempty show False by auto
  qed
  with range show ?thesis by (simp add: chatbot_response_def)
qed

text \<open>
  The claim as stated fails: with the first reply of the catalog empty and a classifier
  that assigns \<open>hi\<close> to its own tag, the reply to \<open>hi\<close> is the empty string.
\<close>

lemma silent_model:
  "initialize_models (spec_sklearn counting_params) 0 silent_catalog =
     Returned (\<lparr>vocabulary = [''hi'', ''bye''], idf = [1, 1]\<rparr>,
               [(''greeting'', [1, 0]), (''goodbye'', [0, 1])])"
  by code_simp

lemma silent_reply:
  "chatbot_response (spec_sklearn counting_params)
     (\<lparr>vocabulary = [''hi'', ''bye''], idf = [1, 1]\<rparr>,
      [(''greeting'', [1, 0]), (''goodbye'', [0, 1])]) silent_catalog 0 ''hi'' = []"
  by code_simp

theorem chatbot_response_empty_counterexample:
  "\<exists>m. initialize_models (spec_sklearn counting_params) 0 silent_catalog = Returned m
       \<and> chatbot_response (spec_sklearn counting_params) m silent_catalog 0 ''hi'' = []"
  using silent_model silent_reply by blast

lemma unfitted_raises:
  "try_response (spec_sklearn counting_params)
       (\<lparr>vocabulary = [''hi'', ''hello'', ''??''], idf = [1, 1, 1]\<rparr>, []) scenario_catalog 0 ''hi''
     = Inl (LibraryError ''no classes'')"
  by code_simp

lemma scenario_filled: "\<forall>i\<in>set scenario_catalog. [] \<notin> set (responses i)"
  by (simp add: scenario_catalog_def)

theorem chatbot_response_catches_witness:
  "try_response (spec_sklearn counting_params)
       (\<lparr>vocabulary = [''hi'', ''hello'', ''??''], idf = [1, 1, 1]\<rparr>, []) scenario_catalog 0 ''hi''
     = Inl (LibraryError ''no classes'')
   \<and> chatbot_response (spec_sklearn counting_params)
       (\<lparr>vocabulary = [''hi'', ''hello'', ''??''], idf = [1, 1, 1]\<rparr>, []) scenario_catalog 0 ''hi''
     = apology
   \<and> chatbot_response (spec_sklearn counting_params)
       (\<lparr>vocabulary = [''hi'', ''hello'', ''??''], idf = [1, 1, 1]\<rparr>,
        [(''greeting'', [1, 1, 0]), (''fallback'', [0, 0, 1])]) scenario_catalog 0 [] \<noteq> []"
proof -
  have caught: "chatbot_response (spec_sklearn counting_params)
       (\<lparr>vocabulary = [''hi'', ''hello'', ''??''], idf = [1, 1, 1]\<rparr>, []) scenario_catalog 0 ''hi''
     = apology"
    by (rule mp [OF conjunct1 [OF chatbot_response_catches] unfitted_raises])
  have "chatbot_response (spec_sklearn counting_params)
       (\<lparr>vocabulary = [''hi'', ''hello'', ''??''], idf = [1, 1, 1]\<rparr>,
        [(''greeting'', [1, 1, 0]), (''fallback'', [0, 0, 1])]) scenario_catalog 0 [] \<noteq> []"
    by (rule mp [OF conjunct2 [OF conjunct2 [OF conjunct2 [OF chatbot_response_catches]]]
          scenario_filled])
  with unfitted_raises caught show ?thesis by simp
qed

section \<open>Facts about training and prediction\<close>

lemma initialize_models_seeded:
  assumes "honours_seed lib"
  shows "initialize_models lib g' intents = initialize_models lib g intents"
proof -
  from assms have seeded: "lr_fit lib \<lparr>random_state = Some 0, max_iter = 1000\<rparr> g' X y
      = lr_fit lib \<lparr>random_state = Some 0, max_iter = 1000\<rparr> g X y" for X y
    unfolding honours_seed_def by blast
  show ?thesis
    by (simp add: initialize_models_def Let_def seeded split: sum.splits prod.splits)
qed

text \<open>
  C6. With a library whose seeded estimators keep the contract above, two runs of
  \<open>initialize_models\<close> on the same catalog end the same way whatever the state of the
  process-wide random generator, because the classifier is built with the seed 0 and the
  bound 1000; when both return, their pairs predict the same tag for every input string.
  Within one process the second call returns the very pair the first one cached.
\<close>

theorem training_deterministic:
  assumes "honours_seed lib"
  shows "initialize_models lib g' intents = initialize_models lib g intents
    \<and> (initialize_models lib g intents = Returned m \<longrightarrow> initialize_models lib g' intents = Returned m'
         \<longrightarrow> predict_tag lib m' user_input = predict_tag lib m user_input)
    \<and> (cache_resource None (initialize_models lib g intents) = (Returned m, cache)
         \<longrightarrow> cache_resource cache (initialize_models lib g' intents') = (Returned m, cache))"
proof -
  from assms have same: "initialize_models lib g' intents = initialize_models lib g intents"
    by (rule initialize_models_seeded)
  have "cache_resource cache (initialize_models lib g' intents') = (Returned m, cache)"
    if "cache_resource None (initialize_models lib g intents) = (Returned m, cache)"
  proof -
    from that have "cache = Some m"
      by (auto simp: cache_resource_def split: outcome.splits)
    then show ?thesis by (simp add: cache_resource_def)
  qed
  with same show ?thesis by auto
qed

lemma spec_sklearn_honours_seed: "honours_seed (spec_sklearn P)"
  by (simp add: honours_seed_def spec_sklearn_def)

theorem training_deterministic_witness:
  "honours_seed (spec_sklearn counting_params)
   \<and> initialize_models (spec_sklearn counting_params) 2 scenario_catalog =
       Returned (\<lparr>vocabulary = [''hi'', ''hello'', ''??''], idf = [1, 1, 1]\<rparr>,
                 [(''greeting'', [1, 1, 0]), (''fallback'', [0, 0, 1])])"
  using conjunct1 [OF training_deterministic [OF spec_sklearn_honours_seed, of counting_params 2 scenario_catalog 1]]
    spec_sklearn_honours_seed [of counting_params] scenario_model
  by simp

lemma of_char_lower_char:
  "\<not> ((65 \<le> (of_char (lower_char ch) :: nat) \<and> (of_char (lower_char ch) :: nat) \<le> 90)
      \<or> (192 \<le> (of_char (lower_char ch) :: nat) \<and> (of_char (lower_char ch) :: nat) \<le> 222
          \<and> (of_char (lower_char ch) :: nat) \<noteq> 215))"
  by (auto simp: lower_char_def Let_def)

lemma lower_char_idem: "lower_char (lower_char ch) = lower_char ch"
proof -
  let ?n = "of_char (lower_char ch) :: nat"
  from of_char_lower_char [of ch]
  have "\<not> ((65 \<le> ?n \<and> ?n \<le> 90) \<or> (192 \<le> ?n \<and> ?n \<le> 222 \<and> ?n \<noteq> 215))" .
  then show ?thesis
    unfolding lower_char_def [of "lower_char ch"] Let_def by (rule if_not_P)
qed

lemma lower_idem: "lower (lower s) = lower s"
  by (simp add: lower_def lower_char_idem)

lemma predict_tag_lower: "predict_tag lib m (lower s) = predict_tag lib m s"
  by (simp add: predict_tag_def lower_idem)

section \<open>Facts about the modelled vectorizer and classifier\<close>

lemma count_list_filter_member:
  "t \<in> V \<Longrightarrow> count_list (filter (\<lambda>x. x \<in> V) xs) t = count_list xs t"
  by (induction xs) auto

lemma tfidf_vector_drops_unseen:
  "tfidf_vector vsm (filter (\<lambda>tok. tok \<in> set (vocabulary vsm)) toks) = tfidf_vector vsm toks"
proof -
  have "count_list (filter (\<lambda>tok. tok \<in> set (vocabulary vsm)) toks) t = count_list toks t"
    if "(t, w) \<in> set (zip (vocabulary vsm) (idf vsm))" for t w
  proof -
    from that have "t \<in> set (vocabulary vsm)" by (rule set_zip_leftD)
    then show ?thesis by (rule count_list_filter_member)
  qed
  then show ?thesis by (auto simp: tfidf_vector_def)
qed

lemma better_cases: "better b c = b \<or> better b c = c"
  by (simp add: better_def)

lemma better_ge: "snd b \<le> snd (better b c) \<and> snd c \<le> snd (better b c)"
  by (simp add: better_def)

lemma foldl_better_member: "foldl better b cs \<in> set (b # cs)"
proof (induction cs arbitrary: b)
  case Nil
  then show ?case by simp
next
  case (Cons c cs)
  from Cons.IH [of "better b c"] better_cases [of b c] show ?case by auto
qed

lemma foldl_better_start: "snd b \<le> snd (foldl better b cs)"
proof (induction cs arbitrary: b)
  case Nil
  then show ?case by simp
next
  case (Cons c cs)
  from better_ge [of b c] Cons.IH [of "better b c"] show ?case by simp
qed

lemma foldl_better_highest: "c \<in> set (b # cs) \<Longrightarrow> snd c \<le> snd (foldl better b cs)"
proof (induction cs arbitrary: b)
  case Nil
  then show ?case by simp
next
  case (Cons d cs)
  show ?case
  proof (cases "c \<in> set (better b d # cs)")
    case True
    then have "snd c \<le> snd (foldl better (better b d) cs)" by (rule Cons.IH)
    then show ?thesis by simp
  next
    case False
    with Cons.prems have "c = b \<or> c = d" by auto
    with better_ge [of b d] have "snd c \<le> snd (better b d)" by auto
    also have "\<dots> \<le> snd (foldl better (better b d) cs)" by (rule foldl_better_start)
    finally show ?thesis by simp
  qed
qed

lemma decision_function_Cons:
  "decision_function (first # rest) x = (fst first, score (snd first) x) # decision_function rest x"
  by (simp add: decision_function_def case_prod_beta)

lemma decision_function_set:
  "set (decision_function clf x) = (\<lambda>kw. (fst kw, score (snd kw) x)) ` set clf"
  by (auto simp: decision_function_def case_prod_beta)

lemma predict_row_highest:
  "\<exists>w. (predict_row first rest x, w) \<in> set (first # rest)
       \<and> (\<forall>kw\<in>set (first # rest). score (snd kw) x \<le> score w x)"
proof -
  let ?best = "foldl better (fst first, score (snd first) x) (decision_function rest x)"
  have "?best \<in> set (decision_function (first # rest) x)"
    using foldl_better_member by (simp add: decision_function_Cons)
  then obtain kw where kw: "kw \<in> set (first # rest)" "?best = (fst kw, score (snd kw) x)"
    unfolding decision_function_set by blast
  have "score (snd c) x \<le> score (snd kw) x" if "c \<in> set (first # rest)" for c
  proof -
    from that have "(fst c, score (snd c) x) \<in> set (decision_function (first # rest) x)"
      unfolding decision_function_set by blast
    then have "snd (fst c, score (snd c) x) \<le> snd ?best"
      unfolding decision_function_Cons by (rule foldl_better_highest)
    with kw(2) show ?thesis by simp
  qed
  moreover from kw have "(predict_row first rest x, snd kw) \<in> set (first # rest)"
    by (simp add: predict_row_def)
  ultimately show ?thesis by blast
qed

lemma training_tags_subset: "set (fst (training_set intents)) \<subseteq> tag ` set intents"
  by (auto simp: training_set_concat)

lemma spec_initialize_models:
  assumes "initialize_models (spec_sklearn P) g intents = Returned m"
  shows "fst m = fit_vocabulary P (snd (training_set intents))
       \<and> fst (training_set intents) \<noteq> []
       \<and> (\<exists>X. snd m = map (\<lambda>k. (k, optimizer P 0 1000 X (fst (training_set intents)) k))
                          (remdups (fst (training_set intents))))"
  using assms
  by (auto simp: initialize_models_def spec_sklearn_def Let_def split: if_splits)

lemma spec_predict_tag:
  "snd m = first # rest \<Longrightarrow>
     predict_tag (spec_sklearn P) m user_input
       = Inr (predict_row first rest (tfidf_vector (fst m) (tokenizer P (lower user_input))))"
  by (simp add: predict_tag_def spec_sklearn_def)

text \<open>
  C5. On the vectorizer and classifier modelled from the specification, with any
  tokenizer, weighting and optimizer: when training on a catalog returns, the prediction
  for every input string returns a tag without an exception. The tag is a class of the
  classifier whose score on the vector of the lower-cased input is highest among all
  classes, with no threshold on that score; it is a training label and so a tag of the
  catalog. The vocabulary is the one fitted on the training texts, and tokens outside it
  weigh nothing: dropping them from a text leaves its vector unchanged.
\<close>

theorem spec_prediction_assigns_trained_tag:
  assumes "initialize_models (spec_sklearn P) g intents = Returned m"
  shows "\<exists>t w. predict_tag (spec_sklearn P) m user_input = Inr t
           \<and> (t, w) \<in> set (snd m)
           \<and> (\<forall>kw\<in>set (snd m).
                 score (snd kw) (tfidf_vector (fst m) (tokenizer P (lower user_input)))
                   \<le> score w (tfidf_vector (fst m) (tokenizer P (lower user_input))))
           \<and> t \<in> set (fst (training_set intents))
           \<and> t \<in> tag ` set intents
           \<and> vocabulary (fst m) = remdups (concat (map (tokenizer P) (snd (training_set intents))))
           \<and> tfidf_vector (fst m) (filter (\<lambda>tok. tok \<in> set (vocabulary (fst m))) toks)
               = tfidf_vector (fst m) toks"
proof -
  let ?tags = "fst (training_set intents)"
  let ?x = "tfidf_vector (fst m) (tokenizer P (lower user_input))"
  from spec_initialize_models [OF assms] obtain X where
    vsm: "fst m = fit_vocabulary P (snd (training_set intents))"
    and tags: "?tags \<noteq> []"
    and clf: "snd m = map (\<lambda>k. (k, optimizer P 0 1000 X ?tags k)) (remdups ?tags)"
    by blast
  from tags have "remdups ?tags \<noteq> []" by simp
  with clf obtain first rest where split: "snd m = first # rest"
    by (cases "snd m") auto
  from predict_row_highest [of first rest ?x] obtain w where
    w: "(predict_row first rest ?x, w) \<in> set (first # rest)"
    and high: "\<forall>kw\<in>set (first # rest). score (snd kw) ?x \<le> score w ?x"
    by blast
  let ?t = "predict_row first rest ?x"
  from clf have "fst ` set (snd m) = set (remdups ?tags)"
    by (simp add: image_image)
  moreover from w split have "(?t, w) \<in> set (snd m)" by simp
  then have "fst (?t, w) \<in> fst ` set (snd m)" by (rule imageI)
  then have "?t \<in> fst ` set (snd m)" by simp
  ultimately have trained: "?t \<in> set ?tags" by simp
  with training_tags_subset have in_catalog: "?t \<in> tag ` set intents" by blast
  from vsm have vocab: "vocabulary (fst m) = remdups (concat (map (tokenizer P) (snd (training_set intents))))"
    by (simp add: fit_vocabulary_def Let_def)
  from split have "predict_tag (spec_sklearn P) m user_input = Inr ?t"
    by (rule spec_predict_tag)
  with w high split trained in_catalog vocab tfidf_vector_drops_unseen [of "fst m" toks]
  show ?thesis by auto
qed

lemma scenario_hello_there:
  "predict_tag (spec_sklearn counting_params)
     (\<lparr>vocabulary = [''hi'', ''hello'', ''??''], idf = [1, 1, 1]\<rparr>,
      [(''greeting'', [1, 1, 0]), (''fallback'', [0, 0, 1])]) ''Hello there'' = Inr ''greeting''"
  by code_simp

theorem spec_prediction_assigns_trained_tag_witness:
  "initialize_models (spec_sklearn counting_params) 0 scenario_catalog =
     Returned (\<lparr>vocabulary = [''hi'', ''hello'', ''??''], idf = [1, 1, 1]\<rparr>,
               [(''greeting'', [1, 1, 0]), (''fallback'', [0, 0, 1])])
   \<and> predict_tag (spec_sklearn counting_params)
       (\<lparr>vocabulary = [''hi'', ''hello'', ''??''], idf = [1, 1, 1]\<rparr>,
        [(''greeting'', [1, 1, 0]), (''fallback'', [0, 0, 1])]) ''Hello there'' = Inr ''greeting''
   \<and> ''greeting'' \<in> tag ` set scenario_catalog"
proof -
  from spec_prediction_assigns_trained_tag [OF scenario_model, of "''Hello there''"]
  obtain t where "predict_tag (spec_sklearn counting_params)
       (\<lparr>vocabulary = [''hi'', ''hello'', ''??''], idf = [1, 1, 1]\<rparr>,
        [(''greeting'', [1, 1, 0]), (''fallback'', [0, 0, 1])]) ''Hello there'' = Inr t"
    and "t \<in> tag ` set scenario_catalog"
    by blast
  with scenario_hello_there have "''greeting'' \<in> tag ` set scenario_catalog" by simp
  with scenario_model scenario_hello_there show ?thesis by simp
qed

section \<open>Facts about prediction on the training patterns\<close>

lemma training_example_member:
  assumes "r \<in> set intents" and "p \<in> set (patterns r)"
  shows "(lower p, tag r) \<in> set (zip (snd (training_set intents)) (fst (training_set intents)))"
proof -
  have "zip (snd (training_set intents)) (fst (training_set intents)) =
          concat (map (\<lambda>i. zip (map lower (patterns i)) (replicate (length (patterns i)) (tag i))) intents)"
    by (simp add: training_set_concat zip_concat_same_lengths)
  also have "\<dots> = concat (map (\<lambda>i. map (\<lambda>q. (lower q, tag i)) (patterns i)) intents)"
    by (simp add: zip_map_replicate)
  finally have "set (zip (snd (training_set intents)) (fst (training_set intents))) =
      (\<Union>i\<in>set intents. (\<lambda>q. (lower q, tag i)) ` set (patterns i))"
    by simp
  moreover from assms(2) have "(lower p, tag r) \<in> (\<lambda>q. (lower q, tag r)) ` set (patterns r)"
    by (rule imageI)
  with assms(1) have "(lower p, tag r) \<in> (\<Union>i\<in>set intents. (\<lambda>q. (lower q, tag i)) ` set (patterns i))"
    by (rule UN_I)
  ultimately show ?thesis by simp
qed

lemma spec_prediction_returns:
  assumes "initialize_models (spec_sklearn P) g intents = Returned m"
  shows "\<exists>t w. predict_tag (spec_sklearn P) m user_input = Inr t
           \<and> t \<in> set (fst (training_set intents))
           \<and> (t, w) \<in> set (snd m)
           \<and> (\<forall>kw\<in>set (snd m).
                 score (snd kw) (tfidf_vector (fst m) (tokenizer P (lower user_input)))
                   \<le> score w (tfidf_vector (fst m) (tokenizer P (lower user_input))))"
proof -
  let ?tags = "fst (training_set intents)"
  let ?x = "tfidf_vector (fst m) (tokenizer P (lower user_input))"
  from spec_initialize_models [OF assms] obtain X where
    tags: "?tags \<noteq> []"
    and clf: "snd m = map (\<lambda>k. (k, optimizer P 0 1000 X ?tags k)) (remdups ?tags)"
    by blast
  from tags have "remdups ?tags \<noteq> []" by simp
  with clf obtain first rest where split: "snd m = first # rest"
    by (cases "snd m") auto
  from predict_row_highest [of first rest ?x] obtain w where
    w: "(predict_row first rest ?x, w) \<in> set (first # rest)"
    and high: "\<forall>kw\<in>set (first # rest). score (snd kw) ?x \<le> score w ?x"
    by blast
  let ?t = "predict_row first rest ?x"
  from clf have "fst ` set (snd m) = set (remdups ?tags)"
    by (simp add: image_image)
  moreover from w split have member: "(?t, w) \<in> set (snd m)" by simp
  then have "fst (?t, w) \<in> fst ` set (snd m)" by (rule imageI)
  then have "?t \<in> fst ` set (snd m)" by simp
  ultimately have trained: "?t \<in> set ?tags" by simp
  from split have "predict_tag (spec_sklearn P) m user_input = Inr ?t"
    by (rule spec_predict_tag)
  moreover from high split have "\<forall>kw\<in>set (snd m). score (snd kw) ?x \<le> score w ?x" by simp
  ultimately show ?thesis using trained member by blast
qed

lemma spec_classes:
  assumes "initialize_models (spec_sklearn P) g intents = Returned m"
  shows "fst ` set (snd m) = set (fst (training_set intents))"
proof -
  from spec_initialize_models [OF assms] obtain X where
    "snd m = map (\<lambda>k. (k, optimizer P 0 1000 X (fst (training_set intents)) k))
               (remdups (fst (training_set intents)))"
    by blast
  then show ?thesis by (simp add: image_image)
qed

text \<open>
  C9, as amended. On the vectorizer and classifier modelled from the specification, with
  any tokenizer, weighting and optimizer: when training on a catalog returns, then for
  every record and every pattern of it, the pattern lower-cased is a training text
  labelled with the record's tag, and that tag is a class of the classifier. Prediction
  on the pattern, as written or lower-cased, returns a training label whose score on the
  pattern's vector is highest among the classes, the same label for every record that
  lists the phrase up to letter case. The label is the record's tag whenever the
  record's class scores strictly higher on that vector than every other class.
\<close>

theorem verbatim_pattern_prediction:
  assumes "initialize_models (spec_sklearn P) g intents = Returned m"
    and "r \<in> set intents" and "p \<in> set (patterns r)"
  shows "(lower p, tag r) \<in> set (zip (snd (training_set intents)) (fst (training_set intents)))
       \<and> tag r \<in> fst ` set (snd m)
       \<and> (\<exists>t w. predict_tag (spec_sklearn P) m (lower p) = Inr t
              \<and> predict_tag (spec_sklearn P) m p = Inr t
              \<and> t \<in> set (fst (training_set intents))
              \<and> (t, w) \<in> set (snd m)
              \<and> (\<forall>kw\<in>set (snd m).
                    score (snd kw) (tfidf_vector (fst m) (tokenizer P (lower p)))
                      \<le> score w (tfidf_vector (fst m) (tokenizer P (lower p))))
              \<and> (\<forall>own. (tag r, own) \<in> set (snd m)
                    \<and> (\<forall>kw\<in>set (snd m). fst kw \<noteq> tag r \<longrightarrow>
                          score (snd kw) (tfidf_vector (fst m) (tokenizer P (lower p)))
                            < score own (tfidf_vector (fst m) (tokenizer P (lower p))))
                    \<longrightarrow> t = tag r)
              \<and> (\<forall>r'\<in>set intents. \<forall>p'\<in>set (patterns r').
                    lower p' = lower p \<longrightarrow> predict_tag (spec_sklearn P) m (lower p') = Inr t))"
proof -
  let ?x = "tfidf_vector (fst m) (tokenizer P (lower p))"
  from assms(2,3) have example:
    "(lower p, tag r) \<in> set (zip (snd (training_set intents)) (fst (training_set intents)))"
    by (rule training_example_member)
  then have "tag r \<in> set (fst (training_set intents))" by (rule set_zip_rightD)
  with spec_classes [OF assms(1)] have own_class: "tag r \<in> fst ` set (snd m)" by simp
  from spec_prediction_returns [OF assms(1), of p] obtain t w where
    t: "predict_tag (spec_sklearn P) m p = Inr t"
    and trained: "t \<in> set (fst (training_set intents))"
    and member: "(t, w) \<in> set (snd m)"
    and high: "\<forall>kw\<in>set (snd m). score (snd kw) ?x \<le> score w ?x"
    by blast
  have lowered: "predict_tag (spec_sklearn P) m (lower p) = Inr t"
    using t by (simp only: predict_tag_lower)
  have same: "predict_tag (spec_sklearn P) m (lower p') = Inr t" if "lower p' = lower p" for p'
    using that lowered by simp
  have wins: "t = tag r"
    if own: "(tag r, own) \<in> set (snd m)"
      and strict: "\<forall>kw\<in>set (snd m). fst kw \<noteq> tag r \<longrightarrow> score (snd kw) ?x < score own ?x"
    for own
  proof (rule ccontr)
    assume "t \<noteq> tag r"
    with strict member have "score w ?x < score own ?x" by force
    moreover from high own have "score own ?x \<le> score w ?x" by force
    ultimately show False by simp
  qed
  from example own_class t lowered trained member high wins same show ?thesis by blast
qed

lemma flat_scenario_model:
  "initialize_models (spec_sklearn flat_params) 0 scenario_catalog =
     Returned (\<lparr>vocabulary = [''hi'', ''hello'', ''??''], idf = [1, 1, 1]\<rparr>,
               [(''greeting'', [0, 0, 0]), (''fallback'', [0, 0, 0])])"
  by code_simp

lemma hello_vector:
  "tfidf_vector \<lparr>vocabulary = [''hi'', ''hello'', ''??''], idf = [1, 1, 1]\<rparr>
     (tokenizer counting_params (lower ''hello'')) = [0, 1, 0]"
  by code_simp

theorem verbatim_pattern_prediction_witness:
  "(lower ''??'', ''fallback'')
      \<in> set (zip (snd (training_set scenario_catalog)) (fst (training_set scenario_catalog)))
   \<and> (\<exists>t. predict_tag (spec_sklearn flat_params)
             (\<lparr>vocabulary = [''hi'', ''hello'', ''??''], idf = [1, 1, 1]\<rparr>,
              [(''greeting'', [0, 0, 0]), (''fallback'', [0, 0, 0])]) ''??'' = Inr t
          \<and> t \<in> set (fst (training_set scenario_catalog)))
   \<and> predict_tag (spec_sklearn counting_params)
        (\<lparr>vocabulary = [''hi'', ''hello'', ''??''], idf = [1, 1, 1]\<rparr>,
         [(''greeting'', [1, 1, 0]), (''fallback'', [0, 0, 1])]) ''hello'' = Inr ''greeting''"
proof -
  have fb: "\<lparr>tag = ''fallback'', patterns = [''??''], responses = [''I don't understand.'']\<rparr>
      \<in> set scenario_catalog"
    by (simp add: scenario_catalog_def)
  have gr: "\<lparr>tag = ''greeting'', patterns = [''hi'', ''hello''], responses = [''Hey there!'']\<rparr>
      \<in> set scenario_catalog"
    by (simp add: scenario_catalog_def)
  from verbatim_pattern_prediction [OF flat_scenario_model fb, of "''??''"]
  have unseparated: "(lower ''??'', ''fallback'')
      \<in> set (zip (snd (training_set scenario_catalog)) (fst (training_set scenario_catalog)))
   \<and> (\<exists>t. predict_tag (spec_sklearn flat_params)
             (\<lparr>vocabulary = [''hi'', ''hello'', ''??''], idf = [1, 1, 1]\<rparr>,
              [(''greeting'', [0, 0, 0]), (''fallback'', [0, 0, 0])]) ''??'' = Inr t
          \<and> t \<in> set (fst (training_set scenario_catalog)))"
    by auto
  let ?m = "(\<lparr>vocabulary = [''hi'', ''hello'', ''??''], idf = [1, 1, 1]\<rparr>,
         [(''greeting'', [1::real, 1, 0]), (''fallback'', [0, 0, 1])])"
  from verbatim_pattern_prediction [OF scenario_model gr, of "''hello''"]
  obtain t where t: "predict_tag (spec_sklearn counting_params) ?m ''hello'' = Inr t"
    and wins: "\<forall>own. (''greeting'', own) \<in> set (snd ?m)
                    \<and> (\<forall>kw\<in>set (snd ?m). fst kw \<noteq> ''greeting'' \<longrightarrow>
                          score (snd kw) (tfidf_vector (fst ?m) (tokenizer counting_params (lower ''hello'')))
                            < score own (tfidf_vector (fst ?m) (tokenizer counting_params (lower ''hello''))))
                    \<longrightarrow> t = ''greeting''"
    by auto
  have "(''greeting'', [1, 1, 0]) \<in> set (snd ?m)
      \<and> (\<forall>kw\<in>set (snd ?m). fst kw \<noteq> ''greeting'' \<longrightarrow>
            score (snd kw) (tfidf_vector (fst ?m) (tokenizer counting_params (lower ''hello'')))
              < score [1, 1, 0] (tfidf_vector (fst ?m) (tokenizer counting_params (lower ''hello''))))"
    by (simp add: hello_vector score_def)
  with wins have "t = ''greeting''" by blast
  with t unseparated show ?thesis by simp
qed

text \<open>
  The claim as stated fails in two ways. For every library and generator state, a phrase
  listed under two tags cannot be predicted as both. And with no phrase shared, a fit
  that has not separated the classes assigns the pattern of the smaller class to the
  other one: on the scenario catalog \<open>??\<close> is predicted as \<open>greeting\<close>.
\<close>

lemma flat_scenario_prediction:
  "predict_tag (spec_sklearn flat_params)
     (\<lparr>vocabulary = [''hi'', ''hello'', ''??''], idf = [1, 1, 1]\<rparr>,
      [(''greeting'', [0, 0, 0]), (''fallback'', [0, 0, 0])]) (lower ''??'') = Inr ''greeting''"
  by code_simp

lemma shared_phrase_no_recall: "\<not> verbatim_recall lib g shared_catalog"
proof
  assume "verbatim_recall lib g shared_catalog"
  then obtain m where
    recall: "\<forall>r\<in>set shared_catalog. \<forall>p\<in>set (patterns r). predict_tag lib m (lower p) = Inr (tag r)"
    unfolding verbatim_recall_def by blast
  have first: "\<lparr>tag = ''greeting'', patterns = [''hi'', ''good day''], responses = [''Hello!'']\<rparr>
      \<in> set shared_catalog"
    and second: "\<lparr>tag = ''goodbye'', patterns = [''good day'', ''bye''], responses = [''See you!'']\<rparr>
      \<in> set shared_catalog"
    by (simp_all add: shared_catalog_def)
  from bspec [OF recall first] have "predict_tag lib m (lower ''good day'') = Inr ''greeting''"
    by simp
  moreover from bspec [OF recall second] have "predict_tag lib m (lower ''good day'') = Inr ''goodbye''"
    by simp
  ultimately have "(Inr ''greeting'' :: py_exception + string) = Inr ''goodbye''"
    by (rule trans [OF sym])
  then show False by simp
qed

lemma flat_scenario_no_recall: "\<not> verbatim_recall (spec_sklearn flat_params) 0 scenario_catalog"
proof
  assume "verbatim_recall (spec_sklearn flat_params) 0 scenario_catalog"
  then obtain m where m: "initialize_models (spec_sklearn flat_params) 0 scenario_catalog = Returned m"
    and recall: "\<forall>r\<in>set scenario_catalog. \<forall>p\<in>set (patterns r).
        predict_tag (spec_sklearn flat_params) m (lower p) = Inr (tag r)"
    unfolding verbatim_recall_def by blast
  from m flat_scenario_model have m_eq: "m = (\<lparr>vocabulary = [''hi'', ''hello'', ''??''], idf = [1, 1, 1]\<rparr>,
               [(''greeting'', [0, 0, 0]), (''fallback'', [0, 0, 0])])"
    by simp
  have "\<lparr>tag = ''fallback'', patterns = [''??''], responses = [''I don't understand.'']\<rparr>
      \<in> set scenario_catalog"
    by (simp add: scenario_catalog_def)
  from bspec [OF recall this] have "predict_tag (spec_sklearn flat_params) m (lower ''??'') = Inr ''fallback''"
    by simp
  with m_eq flat_scenario_prediction have "(Inr ''greeting'' :: py_exception + string) = Inr ''fallback''"
    by simp
  then show False by simp
qed

theorem verbatim_recall_counterexample:
  "(\<forall>(lib :: ('vz, 'mat, 'clf) sklearn) g. \<not> verbatim_recall lib g shared_catalog)
   \<and> \<not> verbatim_recall (spec_sklearn flat_params) 0 scenario_catalog"
  using shared_phrase_no_recall flat_scenario_no_recall by blast

section \<open>Facts about save\_conversation\<close>

text \<open>
  C10. When the history file does not exist, \<open>save_conversation\<close> does not fail and
  does not read: it creates the file as the written form of the one-row table holding the
  new entry, and where that written form reads back, the history shown is that one row.
\<close>

theorem save_conversation_creates:
  "save_conversation env now user_input response None
     = Inr (Some (to_csv env [\<lparr>User = user_input, Response = response, Timestamp = isoformat env now\<rparr>]))
   \<and> (read_csv env (to_csv env [\<lparr>User = user_input, Response = response, Timestamp = isoformat env now\<rparr>])
         = Inr [\<lparr>User = user_input, Response = response, Timestamp = isoformat env now\<rparr>]
       \<longrightarrow> (\<exists>content'. save_conversation env now user_input response None = Inr (Some content')
             \<and> display_chat_history env (Some content')
                 = Inr (Some [\<lparr>User = user_input, Response = response, Timestamp = isoformat env now\<rparr>])))"
  by (simp add: save_conversation_def display_chat_history_def)

theorem save_conversation_creates_witness:
  "save_conversation memory_host ''2024-05-01T10:00:07.250000'' ''hi'' ''hello'' None
     = Inr (Some [\<lparr>User = ''hi'', Response = ''hello'', Timestamp = ''2024-05-01T10:00:07.250000''\<rparr>])
   \<and> display_chat_history memory_host
        (Some [\<lparr>User = ''hi'', Response = ''hello'', Timestamp = ''2024-05-01T10:00:07.250000''\<rparr>])
       = Inr (Some [\<lparr>User = ''hi'', Response = ''hello'', Timestamp = ''2024-05-01T10:00:07.250000''\<rparr>])"
  using save_conversation_creates [of memory_host "''2024-05-01T10:00:07.250000''" "''hi''" "''hello''"]
  by (simp add: memory_host_def display_chat_history_def)

text \<open>
  C8. The round trip through the history file loses an input that the reader takes for
  a missing-value marker. With no history file, \<open>save_conversation\<close> on the input \<open>NA\<close>
  writes the row as typed; read with pandas' defaults, as \<open>save_conversation\<close> and
  \<open>display_chat_history\<close> both read it, the row's \<open>User\<close> comes back as NaN and not as
  the input.
\<close>

theorem save_conversation_loses_marker:
  "save_conversation pandas_na_host ''2024-05-01T10:00:07.250000'' ''NA'' ''hello'' None
     = Inr (Some [\<lparr>User = ''NA'', Response = ''hello'', Timestamp = ''2024-05-01T10:00:07.250000''\<rparr>])
   \<and> display_chat_history pandas_na_host
        (Some [\<lparr>User = ''NA'', Response = ''hello'', Timestamp = ''2024-05-01T10:00:07.250000''\<rparr>])
       = Inr (Some [\<lparr>User = ''nan'', Response = ''hello'', Timestamp = ''2024-05-01T10:00:07.250000''\<rparr>])"
  by (simp add: save_conversation_def display_chat_history_def pandas_na_host_def read_cell_def
      na_markers_def)

end
